theory Spec2Isabelle
  imports Main
begin

section \<open>Query strings\<close>

text \<open>
  The values a caller passes as query parameters: strings, booleans and integers.
  Python's \<^verbatim>\<open>None\<close> is the \<open>None\<close> of an option around them.
\<close>

datatype scalar = SStr string | SBool bool | SInt int

text \<open>Decimal digits of a natural number, most significant first, as \<^verbatim>\<open>str\<close> prints them.\<close>

definition digit_char :: "nat \<Rightarrow> char" where
  "digit_char d = ''0123456789'' ! d"

function str_nat :: "nat \<Rightarrow> string" where
  "str_nat n = (if n < 10 then [digit_char n] else str_nat (n div 10) @ [digit_char (n mod 10)])"
  by pat_completeness auto
termination
  by (relation "measure (\<lambda>n. n)") auto

declare str_nat.simps [simp del]

definition str_int :: "int \<Rightarrow> string" where
  "str_int i = (if i < 0 then CHR ''-'' # str_nat (nat (- i)) else str_nat (nat i))"

text \<open>What \<^verbatim>\<open>f"{v}"\<close> prints for a value: \<^verbatim>\<open>str(v)\<close>.\<close>

fun py_str :: "scalar \<Rightarrow> string" where
  "py_str (SStr s) = s"
| "py_str (SBool b) = (if b then ''True'' else ''False'')"
| "py_str (SInt i) = str_int i"

text \<open>\<^verbatim>\<open>sep.join(parts)\<close>: the separator stands between neighbours only.\<close>

fun py_join :: "string \<Rightarrow> string list \<Rightarrow> string" where
  "py_join sep [] = []"
| "py_join sep [x] = x"
| "py_join sep (x # y # ys) = x @ sep @ py_join sep (y # ys)"

text \<open>
  Keyword arguments reach \<^verbatim>\<open>_stringify\<close> as a dict, which keeps the order of the call:
  a list of name and value pairs.
\<close>

type_synonym parameters = "(string \<times> scalar option) list"

text \<open>
  The list comprehension of \<^verbatim>\<open>_stringify\<close>:
  \<^verbatim>\<open>[f"{k}={v}" for k, v in parameters.items() if v is not None]\<close>.
\<close>

fun stringify_items :: "parameters \<Rightarrow> string list" where
  "stringify_items [] = []"
| "stringify_items ((k, None) # ps) = stringify_items ps"
| "stringify_items ((k, Some v) # ps) = (k @ ''='' @ py_str v) # stringify_items ps"

definition stringify :: "parameters \<Rightarrow> string" where
  "stringify ps = py_join ''&'' (stringify_items ps)"

section \<open>Tables\<close>

text \<open>
  The values of a decoded JSON document, and the \<^verbatim>\<open>NaN\<close> that pandas puts where a
  cell has no value. A dict keeps its keys in order, each key once. A number stands for
  its value, whether pandas holds it as an integer or as a float; floating-point
  numbers that are not whole, other than \<^verbatim>\<open>NaN\<close>, are left out.
\<close>

datatype pyval =
    PNone
  | PNaN
  | PBool bool
  | PInt int
  | PStr string
  | PList "pyval list"
  | PDict "(string \<times> pyval) list"

text \<open>The exceptions that can leave the client.\<close>

datatype pyerror =
    KeyError
  | ValueError
  | TypeError
  | ConnectionError
  | JSONDecodeError
  | HTTPError nat

text \<open>
  A column label: a name, as the keys of the JSON objects give it, or a position, as
  pandas numbers the columns of records it reads by position.
\<close>

datatype label = Name string | Position nat

text \<open>
  A \<^verbatim>\<open>DataFrame\<close> with the default index \<^verbatim>\<open>0..n-1\<close>, as \<^verbatim>\<open>from_records\<close> builds it
  and \<^verbatim>\<open>explode(ignore_index=True)\<close> leaves it: the column labels in order, and the rows
  in order, each row holding one cell per column. Column types are not modelled.
\<close>

record dataframe =
  columns :: "label list"
  rows :: "pyval list list"


text \<open>The cell of a row under a column label.\<close>

definition cell :: "label list \<Rightarrow> pyval list \<Rightarrow> label \<Rightarrow> pyval" where
  "cell cols row c = (case map_of (zip cols row) c of Some v \<Rightarrow> v | None \<Rightarrow> PNaN)"

text \<open>\<^verbatim>\<open>df[column]\<close>: the column's cells in row order, \<^verbatim>\<open>KeyError\<close> for an unknown label.\<close>

definition getitem :: "dataframe \<Rightarrow> label \<Rightarrow> pyerror + pyval list" where
  "getitem df c =
     (if c \<in> set (columns df) then Inr (map (\<lambda>row. cell (columns df) row c) (rows df))
      else Inl KeyError)"

text \<open>
  \<^verbatim>\<open>df.drop(column, axis="columns")\<close>: the table without the column, \<^verbatim>\<open>KeyError\<close> for an
  unknown label (the default \<^verbatim>\<open>errors="raise"\<close>).
\<close>

definition drop_cells :: "label list \<Rightarrow> label \<Rightarrow> pyval list \<Rightarrow> pyval list" where
  "drop_cells cols c row = map snd (filter (\<lambda>(k, v). k \<noteq> c) (zip cols row))"

definition drop_column :: "dataframe \<Rightarrow> label \<Rightarrow> pyerror + dataframe" where
  "drop_column df c =
     (if c \<in> set (columns df)
      then Inr \<lparr>columns = filter (\<lambda>k. k \<noteq> c) (columns df),
                rows = map (drop_cells (columns df) c) (rows df)\<rparr>
      else Inl KeyError)"

text \<open>
  What \<^verbatim>\<open>explode\<close> makes of one cell: a non-empty list-like gives its elements, an
  empty one gives a single \<^verbatim>\<open>NaN\<close>, anything else stays. A dict is list-like, and its
  elements are its keys; a string is not list-like.
\<close>

fun explode_cell :: "pyval \<Rightarrow> pyval list" where
  "explode_cell (PList []) = [PNaN]"
| "explode_cell (PList (x # xs)) = x # xs"
| "explode_cell (PDict []) = [PNaN]"
| "explode_cell (PDict (kv # kvs)) = map (\<lambda>p. PStr (fst p)) (kv # kvs)"
| "explode_cell v = [v]"

definition set_cell :: "label list \<Rightarrow> label \<Rightarrow> pyval \<Rightarrow> pyval list \<Rightarrow> pyval list" where
  "set_cell cols c v row = map (\<lambda>(k, x). if k = c then v else x) (zip cols row)"

text \<open>
  \<^verbatim>\<open>df.explode(column, ignore_index=True)\<close>: \<^verbatim>\<open>ValueError\<close> when the labels are not
  unique, \<^verbatim>\<open>KeyError\<close> for an unknown label; otherwise every row is repeated once per
  value its cell explodes to, the other cells copied, and the rows are numbered anew.
\<close>

definition explode :: "dataframe \<Rightarrow> label \<Rightarrow> pyerror + dataframe" where
  "explode df c =
     (if \<not> distinct (columns df) then Inl ValueError
      else if c \<notin> set (columns df) then Inl KeyError
      else Inr \<lparr>columns = columns df,
                rows = concat (map (\<lambda>row. map (\<lambda>v. set_cell (columns df) c v row)
                                                (explode_cell (cell (columns df) row c)))
                                   (rows df))\<rparr>)"

text \<open>The keys of the records, each once, in the order they are first seen.\<close>

fun unique_keys :: "string list \<Rightarrow> string list \<Rightarrow> string list" where
  "unique_keys seen [] = seen"
| "unique_keys seen (k # ks) = unique_keys (if k \<in> set seen then seen else seen @ [k]) ks"

fun is_dict :: "pyval \<Rightarrow> bool" where
  "is_dict (PDict d) = True"
| "is_dict v = False"

fun dict_keys :: "pyval \<Rightarrow> string list" where
  "dict_keys (PDict d) = map fst d"
| "dict_keys v = []"


text \<open>
  The cells of one record under the keys of all: the value of the key, and \<^verbatim>\<open>NaN\<close>
  where the record has no such key. pandas then chooses a type for the column, which
  can rewrite a null: in a column of numbers or of strings it becomes \<^verbatim>\<open>NaN\<close>, as here.
\<close>

fun record_cell :: "pyval option \<Rightarrow> pyval" where
  "record_cell None = PNaN"
| "record_cell (Some PNone) = PNaN"
| "record_cell (Some v) = v"

fun record_row :: "string list \<Rightarrow> pyval \<Rightarrow> pyval list" where
  "record_row keys (PDict d) = map (\<lambda>k. record_cell (map_of d k)) keys"
| "record_row keys v = map (\<lambda>k. PNaN) keys"

text \<open>A table without columns has no rows.\<close>

definition named_records :: "pyval list \<Rightarrow> dataframe" where
  "named_records data =
     (let keys = unique_keys [] (concat (map dict_keys data))
      in \<lparr>columns = map Name keys,
          rows = (if keys = [] then [] else map (record_row keys) data)\<rparr>)"

text \<open>
  A record read by position is what \<^verbatim>\<open>tuple(x)\<close> makes of it: the elements of a list,
  the characters of a string, the keys of a dict; nothing else can be iterated. The
  table is as wide as the longest record, its columns are numbered, and a shorter
  record is filled up with \<^verbatim>\<open>NaN\<close>.
\<close>

fun items :: "pyval \<Rightarrow> pyval list option" where
  "items (PList xs) = Some xs"
| "items (PStr s) = Some (map (\<lambda>ch. PStr [ch]) s)"
| "items (PDict d) = Some (map (\<lambda>p. PStr (fst p)) d)"
| "items v = None"

fun all_items :: "pyval list \<Rightarrow> pyval list list option" where
  "all_items [] = Some []"
| "all_items (v # vs) =
     (case items v of
        None \<Rightarrow> None
      | Some t \<Rightarrow> (case all_items vs of None \<Rightarrow> None | Some ts \<Rightarrow> Some (t # ts)))"

definition positional_records :: "pyval list list \<Rightarrow> dataframe" where
  "positional_records tuples =
     (let width = foldr max (map length tuples) 0
      in \<lparr>columns = map Position [0..<width],
          rows = (if width = 0 then []
                  else map (\<lambda>t. t @ replicate (width - length t) PNaN) tuples)\<rparr>)"

text \<open>
  \<^verbatim>\<open>pd.DataFrame.from_records(data)\<close> for a sequence of records. No records give the
  empty table. When the first record is a dict, the records are read by name, and
  every one of them has to be a dict (\<^verbatim>\<open>TypeError\<close> otherwise). When the first record is
  a list or a string, the records are read by position. When it is \<^verbatim>\<open>None\<close>, \<^verbatim>\<open>NaN\<close>, a
  boolean or a number, \<^verbatim>\<open>tuple(x)\<close> raises \<^verbatim>\<open>TypeError\<close>.
\<close>

definition by_position :: "pyval list \<Rightarrow> pyerror + dataframe" where
  "by_position data =
     (case all_items data of None \<Rightarrow> Inl TypeError | Some ts \<Rightarrow> Inr (positional_records ts))"

fun from_records :: "pyval list \<Rightarrow> pyerror + dataframe" where
  "from_records [] = Inr \<lparr>columns = [], rows = []\<rparr>"
| "from_records (PDict d # ds) =
     (if list_all is_dict ds then Inr (named_records (PDict d # ds)) else Inl TypeError)"
| "from_records (PList xs # ds) = by_position (PList xs # ds)"
| "from_records (PStr s # ds) = by_position (PStr s # ds)"
| "from_records (v # ds) = Inl TypeError"

text \<open>
  \<^verbatim>\<open>pd.concat((a, b), axis="columns")\<close> of two tables with the default index: the
  columns of \<open>a\<close> then those of \<open>b\<close>, row by row; where one table is shorter, its cells
  are \<^verbatim>\<open>NaN\<close>.
\<close>

fun concat_rows :: "nat \<Rightarrow> nat \<Rightarrow> pyval list list \<Rightarrow> pyval list list \<Rightarrow> pyval list list" where
  "concat_rows m n [] [] = []"
| "concat_rows m n (x # xs) [] = (x @ replicate n PNaN) # concat_rows m n xs []"
| "concat_rows m n [] (y # ys) = (replicate m PNaN @ y) # concat_rows m n [] ys"
| "concat_rows m n (x # xs) (y # ys) = (x @ y) # concat_rows m n xs ys"

definition concat_columns :: "dataframe \<Rightarrow> dataframe \<Rightarrow> dataframe" where
  "concat_columns a b =
     \<lparr>columns = columns a @ columns b,
      rows = concat_rows (length (columns a)) (length (columns b)) (rows a) (rows b)\<rparr>"

text \<open>
  \<^verbatim>\<open>_flatten_column\<close>. The \<^verbatim>\<open>try\<close> keeps the table as it was when \<^verbatim>\<open>explode\<close> raises
  \<^verbatim>\<open>KeyError\<close>, and lets any other exception through. In the \<^verbatim>\<open>return\<close>, the
  \<^verbatim>\<open>drop\<close> is evaluated before \<^verbatim>\<open>df[column]\<close> and \<^verbatim>\<open>from_records\<close>.
\<close>

definition flatten_column :: "dataframe \<Rightarrow> string \<Rightarrow> pyerror + dataframe" where
  "flatten_column df column =
     (case (case explode df (Name column) of
              Inl e \<Rightarrow> if e = KeyError then Inr df else Inl e
            | Inr exploded \<Rightarrow> Inr exploded) of
        Inl e \<Rightarrow> Inl e
      | Inr df1 \<Rightarrow>
          (case drop_column df1 (Name column) of
             Inl e \<Rightarrow> Inl e
           | Inr left \<Rightarrow>
               (case getitem df1 (Name column) of
                  Inl e \<Rightarrow> Inl e
                | Inr series \<Rightarrow>
                    (case from_records series of
                       Inl e \<Rightarrow> Inl e
                     | Inr right \<Rightarrow> Inr (concat_columns left right)))))"

text \<open>
  The same function over a store of table objects, to see what it does to the object
  it is given. An address is a position in the store; every pandas call that returns a
  table (\<^verbatim>\<open>explode\<close>, \<^verbatim>\<open>drop\<close> with the default \<^verbatim>\<open>inplace=False\<close>, \<^verbatim>\<open>from_records\<close>,
  \<^verbatim>\<open>concat\<close>) allocates a new object, and \<^verbatim>\<open>df = df.explode(...)\<close> only rebinds the
  local name.
\<close>

type_synonym store = "dataframe list"

definition alloc :: "store \<Rightarrow> pyerror + dataframe \<Rightarrow> store \<times> (pyerror + nat)" where
  "alloc st r = (case r of Inl e \<Rightarrow> (st, Inl e) | Inr df \<Rightarrow> (st @ [df], Inr (length st)))"

definition flatten_column_store :: "store \<Rightarrow> nat \<Rightarrow> string \<Rightarrow> store \<times> (pyerror + nat)" where
  "flatten_column_store st df column =
     (let (st1, r1) = alloc st (explode (st ! df) (Name column)) in
      case (case r1 of
              Inl e \<Rightarrow> if e = KeyError then Inr df else Inl e
            | Inr exploded \<Rightarrow> Inr exploded) of
        Inl e \<Rightarrow> (st1, Inl e)
      | Inr df1 \<Rightarrow>
          (let (st2, r2) = alloc st1 (drop_column (st1 ! df1) (Name column)) in
           case r2 of
             Inl e \<Rightarrow> (st2, Inl e)
           | Inr left \<Rightarrow>
               (case getitem (st2 ! df1) (Name column) of
                  Inl e \<Rightarrow> (st2, Inl e)
                | Inr series \<Rightarrow>
                    (let (st3, r3) = alloc st2 (from_records series) in
                     case r3 of
                       Inl e \<Rightarrow> (st3, Inl e)
                     | Inr right \<Rightarrow>
                         alloc st3 (Inr (concat_columns (st3 ! left) (st3 ! right)))))))"

section \<open>Requests\<close>

text \<open>
  What the client sees of a response: its status code, and what \<^verbatim>\<open>response.json()\<close>
  gives, \<open>None\<close> when the body is not JSON. The API answers with an array, so a decoded
  body is a list of values.
\<close>

record response =
  status_code :: nat
  json :: "pyval list option"

text \<open>
  The network, as far as the client can tell: the answers still to come, one per
  request (\<open>None\<close> for a request that gets no answer), and the URLs requested so far.
\<close>

record network =
  pending :: "response option list"
  requested :: "string list"

definition requests_get :: "string \<Rightarrow> network \<Rightarrow> (pyerror + response) \<times> network" where
  "requests_get url net =
     (case pending net of
        [] \<Rightarrow> (Inl ConnectionError, net\<lparr>requested := requested net @ [url]\<rparr>)
      | r # rs \<Rightarrow>
          ((case r of None \<Rightarrow> Inl ConnectionError | Some resp \<Rightarrow> Inr resp),
           \<lparr>pending = rs, requested = requested net @ [url]\<rparr>))"

text \<open>\<^verbatim>\<open>response.raise_for_status()\<close> raises for the client and server error codes.\<close>

definition raise_for_status :: "response \<Rightarrow> pyerror + unit" where
  "raise_for_status resp =
     (if 400 \<le> status_code resp \<and> status_code resp < 600 then Inl (HTTPError (status_code resp))
      else Inr ())"

record client =
  base_url :: string

definition NILUClient :: client where
  "NILUClient = \<lparr>base_url = ''https://api.nilu.no/''\<rparr>"

definition get_url :: "client \<Rightarrow> string \<Rightarrow> parameters \<Rightarrow> network \<Rightarrow> (pyerror + dataframe) \<times> network" where
  "get_url self url query_parameters net =
     (let (r, net') = requests_get (base_url self @ url @ ''?'' @ stringify query_parameters) net in
      (case r of
         Inl e \<Rightarrow> Inl e
       | Inr resp \<Rightarrow>
           (case raise_for_status resp of
              Inl e \<Rightarrow> Inl e
            | Inr u \<Rightarrow>
                (case json resp of
                   None \<Rightarrow> Inl JSONDecodeError
                 | Some records \<Rightarrow> from_records records)),
       net'))"

text \<open>Post-processing of a fetched table, as the flattening operations do it.\<close>

definition flattened :: "string \<Rightarrow> (pyerror + dataframe) \<times> network \<Rightarrow> (pyerror + dataframe) \<times> network" where
  "flattened column res =
     (case fst res of Inl e \<Rightarrow> (Inl e, snd res) | Inr df \<Rightarrow> (flatten_column df column, snd res))"

definition get_areas :: "client \<Rightarrow> network \<Rightarrow> (pyerror + dataframe) \<times> network" where
  "get_areas self net = get_url self ''lookup/areas'' [] net"

definition get_stations ::
  "client \<Rightarrow> string option \<Rightarrow> bool option \<Rightarrow> network \<Rightarrow> (pyerror + dataframe) \<times> network" where
  "get_stations self area utd net =
     get_url self ''lookup/stations''
       [(''area'', map_option SStr area), (''utd'', map_option SBool utd)] net"

definition get_components :: "client \<Rightarrow> network \<Rightarrow> (pyerror + dataframe) \<times> network" where
  "get_components self net = get_url self ''lookup/components'' [] net"

definition get_air_quality_index ::
  "client \<Rightarrow> string option \<Rightarrow> string option \<Rightarrow> network \<Rightarrow> (pyerror + dataframe) \<times> network" where
  "get_air_quality_index self component culture net =
     flattened ''aqis''
       (get_url self ''lookup/aqis''
          [(''component'', map_option SStr component), (''culture'', map_option SStr culture)] net)"

definition get_timeseries ::
  "client \<Rightarrow> string option \<Rightarrow> string option \<Rightarrow> int option \<Rightarrow> network
    \<Rightarrow> (pyerror + dataframe) \<times> network" where
  "get_timeseries self station component timestep net =
     get_url self ''lookup/timeseries''
       [(''station'', map_option SStr station), (''component'', map_option SStr component),
        (''timestep'', map_option SInt timestep)] net"

text \<open>
  A \<^verbatim>\<open>Timestamp\<close>, as \<^verbatim>\<open>pd.to_datetime\<close> returns it for one date-like value: a date
  of the calendar and a time of day. Time zones and fractions of a second are left out.
\<close>

record timestamp =
  year :: nat
  month :: nat
  day :: nat
  hour :: nat
  minute :: nat
  second :: nat

definition leap_year :: "nat \<Rightarrow> bool" where
  "leap_year y = (y mod 4 = 0 \<and> (y mod 400 = 0 \<or> y mod 100 \<noteq> 0))"

definition days_in_month :: "nat \<Rightarrow> nat \<Rightarrow> nat" where
  "days_in_month y m =
     (if m = 2 then (if leap_year y then 29 else 28)
      else if m = 4 \<or> m = 6 \<or> m = 9 \<or> m = 11 then 30 else 31)"

definition valid_date :: "nat \<Rightarrow> nat \<Rightarrow> nat \<Rightarrow> bool" where
  "valid_date y m d =
     (1 \<le> y \<and> y \<le> 9999 \<and> 1 \<le> m \<and> m \<le> 12 \<and> 1 \<le> d \<and> d \<le> days_in_month y m)"

definition valid_timestamp :: "timestamp \<Rightarrow> bool" where
  "valid_timestamp t =
     (valid_date (year t) (month t) (day t) \<and> hour t < 24 \<and> minute t < 60 \<and> second t < 60)"

text \<open>
  The date-like values a caller passes: a string, a \<^verbatim>\<open>date\<close> object (year, month, day)
  or a \<^verbatim>\<open>datetime\<close> object (with hour, minute, second).
\<close>

datatype datelike =
    DateString string
  | Date nat nat nat
  | Datetime nat nat nat nat nat nat

text \<open>Reading decimal digits.\<close>

definition digit_value :: "char \<Rightarrow> nat option" where
  "digit_value ch = map_of (zip ''0123456789'' [0, 1, 2, 3, 4, 5, 6, 7, 8, 9]) ch"

fun number :: "nat \<Rightarrow> string \<Rightarrow> nat option" where
  "number acc [] = Some acc"
| "number acc (ch # cs) =
     (case digit_value ch of None \<Rightarrow> None | Some v \<Rightarrow> number (10 * acc + v) cs)"

text \<open>
  The ISO 8601 forms \<^verbatim>\<open>YYYY-MM-DD\<close>, \<^verbatim>\<open>YYYY-MM-DD HH:MM:SS\<close> and
  \<^verbatim>\<open>YYYY-MM-DDTHH:MM:SS\<close>, which pandas reads before it tries anything else.
\<close>

definition parse_date :: "string \<Rightarrow> (nat \<times> nat \<times> nat) option" where
  "parse_date s =
     (if length s = 10 \<and> s ! 4 = CHR ''-'' \<and> s ! 7 = CHR ''-''
      then (case number 0 (take 4 s) of
              None \<Rightarrow> None
            | Some y \<Rightarrow>
                (case number 0 (take 2 (drop 5 s)) of
                   None \<Rightarrow> None
                 | Some m \<Rightarrow>
                     (case number 0 (drop 8 s) of
                        None \<Rightarrow> None
                      | Some d \<Rightarrow> Some (y, m, d))))
      else None)"

definition parse_clock :: "string \<Rightarrow> (nat \<times> nat \<times> nat) option" where
  "parse_clock s =
     (if length s = 8 \<and> s ! 2 = CHR '':'' \<and> s ! 5 = CHR '':''
      then (case number 0 (take 2 s) of
              None \<Rightarrow> None
            | Some hh \<Rightarrow>
                (case number 0 (take 2 (drop 3 s)) of
                   None \<Rightarrow> None
                 | Some mm \<Rightarrow>
                     (case number 0 (drop 6 s) of
                        None \<Rightarrow> None
                      | Some ss \<Rightarrow> Some (hh, mm, ss))))
      else None)"

definition parse_iso :: "string \<Rightarrow> timestamp option" where
  "parse_iso s =
     (if length s = 10
      then (case parse_date s of
              None \<Rightarrow> None
            | Some (y, m, d) \<Rightarrow>
                Some \<lparr>year = y, month = m, day = d, hour = 0, minute = 0, second = 0\<rparr>)
      else if length s = 19 \<and> (s ! 10 = CHR '' '' \<or> s ! 10 = CHR ''T'')
      then (case parse_date (take 10 s) of
              None \<Rightarrow> None
            | Some (y, m, d) \<Rightarrow>
                (case parse_clock (drop 11 s) of
                   None \<Rightarrow> None
                 | Some (hh, mm, ss) \<Rightarrow>
                     Some \<lparr>year = y, month = m, day = d, hour = hh, minute = mm, second = ss\<rparr>))
      else None)"

text \<open>
  \<^verbatim>\<open>pd.to_datetime\<close> of one date-like value; \<open>None\<close> stands for the exception it raises.
  A \<^verbatim>\<open>date\<close> or \<^verbatim>\<open>datetime\<close> object gives the timestamp with its fields. A string in
  one of the ISO forms above gives the timestamp it spells. Any other string goes to
  the general date parser that pandas falls back on, which is a parameter here
  (\<open>dateutil\<close>). Every timestamp is a date of the calendar.
\<close>

definition checked :: "timestamp \<Rightarrow> timestamp option" where
  "checked t = (if valid_timestamp t then Some t else None)"

definition fallback :: "(string \<Rightarrow> timestamp option) \<Rightarrow> string \<Rightarrow> timestamp option" where
  "fallback dateutil s = (case dateutil s of None \<Rightarrow> None | Some t \<Rightarrow> checked t)"

fun to_datetime :: "(string \<Rightarrow> timestamp option) \<Rightarrow> datelike \<Rightarrow> timestamp option" where
  "to_datetime dateutil (Date y m d) =
     checked \<lparr>year = y, month = m, day = d, hour = 0, minute = 0, second = 0\<rparr>"
| "to_datetime dateutil (Datetime y m d hh mm ss) =
     checked \<lparr>year = y, month = m, day = d, hour = hh, minute = mm, second = ss\<rparr>"
| "to_datetime dateutil (DateString s) =
     (case parse_iso s of
        None \<Rightarrow> fallback dateutil s
      | Some t \<Rightarrow> if valid_timestamp t then Some t else fallback dateutil s)"

definition zero_pad :: "nat \<Rightarrow> nat \<Rightarrow> string" where
  "zero_pad w n = replicate (w - length (str_nat n)) CHR ''0'' @ str_nat n"

text \<open>
  \<^verbatim>\<open>t.strftime("%Y-%m-%d")\<close>. The month and the day are padded to two digits; the year
  is printed as the number it is, without padding (the C library that Python calls on
  Linux does not pad \<^verbatim>\<open>%Y\<close>).
\<close>

definition strftime_Ymd :: "timestamp \<Rightarrow> string" where
  "strftime_Ymd t = str_nat (year t) @ ''-'' @ zero_pad 2 (month t) @ ''-'' @ zero_pad 2 (day t)"

text \<open>
  \<^verbatim>\<open>get_observations\<close>. A date that \<^verbatim>\<open>pd.to_datetime\<close> cannot read ends the call before
  any request (\<^verbatim>\<open>ValueError\<close>). The station is \<^verbatim>\<open>"all"\<close> when the caller leaves it out.
\<close>

definition default_station :: string where
  "default_station = ''all''"

definition join_components :: "string list option \<Rightarrow> string option" where
  "join_components components =
     (case components of None \<Rightarrow> None | Some cs \<Rightarrow> Some (py_join '';'' cs))"

definition observations_parameters :: "string option \<Rightarrow> bool option \<Rightarrow> parameters" where
  "observations_parameters components showinvalid =
     [(''components'', map_option SStr components), (''showinvalid'', map_option SBool showinvalid)]"

definition get_observations ::
  "(string \<Rightarrow> timestamp option) \<Rightarrow> client \<Rightarrow> datelike \<Rightarrow> datelike \<Rightarrow> string
    \<Rightarrow> string list option \<Rightarrow> bool option \<Rightarrow> network \<Rightarrow> (pyerror + dataframe) \<times> network" where
  "get_observations dateutil self fromtime totime station components showinvalid net =
     (case to_datetime dateutil fromtime of
        None \<Rightarrow> (Inl ValueError, net)
      | Some t1 \<Rightarrow>
          (case to_datetime dateutil totime of
             None \<Rightarrow> (Inl ValueError, net)
           | Some t2 \<Rightarrow>
               flattened ''values''
                 (get_url self
                    (''obs/historical/'' @ strftime_Ymd t1 @ ''/'' @ strftime_Ymd t2 @ ''/'' @ station)
                    (observations_parameters (join_components components) showinvalid) net)))"

section \<open>The specification's wording\<close>

text \<open>
  The query string as the specification describes it: every parameter with a value
  gives \<^verbatim>\<open>name=value\<close>, in the order supplied; an \<^verbatim>\<open>&\<close> stands after an entry only when
  another entry with a value follows; a parameter without a value gives nothing.
\<close>

fun query_spec :: "parameters \<Rightarrow> string" where
  "query_spec [] = []"
| "query_spec ((k, None) # ps) = query_spec ps"
| "query_spec ((k, Some v) # ps) =
     (if list_all (\<lambda>p. snd p = None) ps then k @ ''='' @ py_str v
      else k @ ''='' @ py_str v @ ''&'' @ query_spec ps)"


text \<open>
  The calendar date as ten characters: four digits of the year, two of the month and
  two of the day, with \<^verbatim>\<open>-\<close> between them; and the time of day as eight.
\<close>

definition iso_date :: "nat \<Rightarrow> nat \<Rightarrow> nat \<Rightarrow> string" where
  "iso_date y m d =
     [digit_char (y div 1000), digit_char (y div 100 mod 10), digit_char (y div 10 mod 10),
      digit_char (y mod 10), CHR ''-'', digit_char (m div 10), digit_char (m mod 10), CHR ''-'',
      digit_char (d div 10), digit_char (d mod 10)]"

definition iso_clock :: "nat \<Rightarrow> nat \<Rightarrow> nat \<Rightarrow> string" where
  "iso_clock hh mm ss =
     [digit_char (hh div 10), digit_char (hh mod 10), CHR '':'',
      digit_char (mm div 10), digit_char (mm mod 10), CHR '':'',
      digit_char (ss div 10), digit_char (ss mod 10)]"

text \<open>
  What an operation makes of an answered request: an \<^verbatim>\<open>HTTPError\<close> with the answer's
  status when that is a client or server error code and no \<^verbatim>\<open>HTTPError\<close> otherwise,
  after one request that used up one answer.
\<close>

fun is_http_error :: "pyerror + 'a \<Rightarrow> bool" where
  "is_http_error (Inl (HTTPError s)) = True"
| "is_http_error r = False"

definition http_outcome :: "response \<Rightarrow> network \<Rightarrow> (pyerror + dataframe) \<times> network \<Rightarrow> bool" where
  "http_outcome resp net res =
     ((if 400 \<le> status_code resp \<and> status_code resp < 600
       then fst res = Inl (HTTPError (status_code resp))
       else \<not> is_http_error (fst res)) \<and>
      length (requested (snd res)) = length (requested net) + 1 \<and>
      pending (snd res) = tl (pending net))"









section \<open>Properties of the query string\<close>

lemma py_join_Cons: "py_join sep (x # xs) = (if xs = [] then x else x @ sep @ py_join sep xs)"
  by (cases xs) simp_all

lemma stringify_items_empty: "(stringify_items ps = []) = list_all (\<lambda>p. snd p = None) ps"
  by (induction ps rule: stringify_items.induct) simp_all

lemma stringify_items_filter:
  "stringify_items ps =
     map (\<lambda>p. fst p @ ''='' @ py_str (the (snd p))) (filter (\<lambda>p. snd p \<noteq> None) ps)"
  by (induction ps rule: stringify_items.induct) simp_all

lemma stringify_query_spec: "stringify ps = query_spec ps"
  unfolding stringify_def
  by (induction ps rule: stringify_items.induct)
     (simp_all add: py_join_Cons stringify_items_empty)

lemma requested_get_url:
  "requested (snd (get_url self url ps net)) =
     requested net @ [base_url self @ url @ ''?'' @ stringify ps]"
  by (simp add: get_url_def requests_get_def split: list.splits prod.splits)

text \<open>
  Claim C3. The query string holds \<^verbatim>\<open>name=value\<close> for exactly the parameters that have a
  value, joined by \<^verbatim>\<open>&\<close> in the order supplied, and nothing for the others: it is the
  string the specification describes, and the join of the entries with a value. The
  station lookup with only \<^verbatim>\<open>area="bergen"\<close> requests the query string \<^verbatim>\<open>area=bergen\<close>.
\<close>

theorem stringify_present_in_order:
  "stringify ps = query_spec ps \<and>
   stringify ps =
     py_join ''&'' (map (\<lambda>p. fst p @ ''='' @ py_str (the (snd p)))
                         (filter (\<lambda>p. snd p \<noteq> None) ps)) \<and>
   requested (snd (get_stations NILUClient (Some ''bergen'') None net)) =
     requested net @ [''https://api.nilu.no/lookup/stations?area=bergen'']"
  apply (intro conjI)
    apply (rule stringify_query_spec)
   apply (simp add: stringify_def stringify_items_filter)
  apply (simp add: get_stations_def requested_get_url NILUClient_def stringify_def)
  done





text \<open>
  Claim C10. Two parameter lists with the same entries that have a value, in the same
  order, give the same query string: a parameter passed as \<^verbatim>\<open>None\<close> cannot be told
  from one that was not passed.
\<close>

theorem stringify_present_only:
  "filter (\<lambda>p. snd p \<noteq> None) ps = filter (\<lambda>p. snd p \<noteq> None) qs
    \<Longrightarrow> stringify ps = stringify qs"
  by (simp add: stringify_def stringify_items_filter)

theorem stringify_present_only_witness:
  "filter (\<lambda>p. snd p \<noteq> None) [(''area'', Some (SStr ''bergen'')), (''utd'', None)] =
     filter (\<lambda>p. snd p \<noteq> None) [(''area'', Some (SStr ''bergen''))] \<and>
   stringify [(''area'', Some (SStr ''bergen'')), (''utd'', None)] =
     stringify [(''area'', Some (SStr ''bergen''))]"
proof -
  have h: "filter (\<lambda>p. snd p \<noteq> None)
             [(''area'', Some (SStr ''bergen'')), (''utd'', None :: scalar option)] =
           filter (\<lambda>p. snd p \<noteq> None) [(''area'', Some (SStr ''bergen''))]"
    by simp
  show ?thesis using h stringify_present_only [OF h] by simp
qed

section \<open>Properties of the dates\<close>

lemma str_nat_1: "n < 10 \<Longrightarrow> str_nat n = [digit_char n]"
  by (simp add: str_nat.simps)

lemma str_nat_2:
  "10 \<le> n \<Longrightarrow> n < 100 \<Longrightarrow> str_nat n = [digit_char (n div 10), digit_char (n mod 10)]"
  by (subst str_nat.simps) (simp add: str_nat_1)

lemma str_nat_3:
  "100 \<le> n \<Longrightarrow> n < 1000 \<Longrightarrow>
     str_nat n = [digit_char (n div 100), digit_char (n div 10 mod 10), digit_char (n mod 10)]"
  by (subst str_nat.simps) (simp add: str_nat_2 div_mult2_eq [symmetric])

lemma str_nat_4:
  "1000 \<le> n \<Longrightarrow> n < 10000 \<Longrightarrow>
     str_nat n = [digit_char (n div 1000), digit_char (n div 100 mod 10),
                  digit_char (n div 10 mod 10), digit_char (n mod 10)]"
  by (subst str_nat.simps) (simp add: str_nat_3 div_mult2_eq [symmetric])

lemma zero_pad_2: "n < 100 \<Longrightarrow> zero_pad 2 n = [digit_char (n div 10), digit_char (n mod 10)]"
  by (cases "n < 10") (simp_all add: zero_pad_def str_nat_1 str_nat_2 digit_char_def)

lemma days_in_month_le: "days_in_month y m \<le> 31"
  by (simp add: days_in_month_def)

lemma strftime_iso:
  assumes "valid_timestamp t" and "1000 \<le> year t"
  shows "strftime_Ymd t = iso_date (year t) (month t) (day t)"
proof -
  have "day t \<le> 31"
    using assms(1) days_in_month_le [of "year t" "month t"]
    by (simp add: valid_timestamp_def valid_date_def)
  then show ?thesis
    using assms
    by (simp add: valid_timestamp_def valid_date_def strftime_Ymd_def iso_date_def zero_pad_2
        str_nat_4)
qed

lemma digit_value_digit_char: "n < 10 \<Longrightarrow> digit_value (digit_char n) = Some n"
proof -
  assume "n < 10"
  then consider "n = 0" | "n = 1" | "n = 2" | "n = 3" | "n = 4" | "n = 5" | "n = 6" | "n = 7"
    | "n = 8" | "n = 9"
    by atomize_elim arith
  then show ?thesis
    by cases (simp_all add: digit_value_def digit_char_def)
qed

lemma number_2:
  "a < 10 \<Longrightarrow> b < 10 \<Longrightarrow> number 0 [digit_char a, digit_char b] = Some (10 * a + b)"
  by (simp add: digit_value_digit_char)

lemma number_4:
  "a < 10 \<Longrightarrow> b < 10 \<Longrightarrow> c < 10 \<Longrightarrow> e < 10 \<Longrightarrow>
     number 0 [digit_char a, digit_char b, digit_char c, digit_char e] =
       Some (1000 * a + 100 * b + 10 * c + e)"
  by (simp add: digit_value_digit_char)

lemma digits_of_year:
  "1000 * ((y::nat) div 1000) + 100 * (y div 100 mod 10) + 10 * (y div 10 mod 10) + y mod 10 = y"
proof -
  have a: "y = 10 * (y div 10) + y mod 10" by simp
  have b: "y div 10 = 10 * (y div 10 div 10) + y div 10 mod 10" by simp
  have c: "y div 100 = 10 * (y div 100 div 10) + y div 100 mod 10" by simp
  have d: "y div 10 div 10 = y div 100" by (simp add: div_mult2_eq [symmetric])
  have e: "y div 100 div 10 = y div 1000" by (simp add: div_mult2_eq [symmetric])
  show ?thesis using a b c d e by linarith
qed

lemma parse_date_iso:
  assumes "y < 10000" and "m < 100" and "d < 100"
  shows "parse_date (iso_date y m d) = Some (y, m, d)"
proof -
  have y: "number 0 [digit_char (y div 1000), digit_char (y div 100 mod 10),
                     digit_char (y div 10 mod 10), digit_char (y mod 10)] = Some y"
    using assms(1) number_4 [of "y div 1000" "y div 100 mod 10" "y div 10 mod 10" "y mod 10"]
      digits_of_year [of y]
    by simp
  have m: "number 0 [digit_char (m div 10), digit_char (m mod 10)] = Some m"
    using assms(2) number_2 [of "m div 10" "m mod 10"] by simp
  have d: "number 0 [digit_char (d div 10), digit_char (d mod 10)] = Some d"
    using assms(3) number_2 [of "d div 10" "d mod 10"] by simp
  show ?thesis
    unfolding parse_date_def iso_date_def
    by (simp add: y m d del: number.simps)
qed

lemma parse_clock_iso:
  assumes "hh < 100" and "mm < 100" and "ss < 100"
  shows "parse_clock (iso_clock hh mm ss) = Some (hh, mm, ss)"
proof -
  have h: "number 0 [digit_char (hh div 10), digit_char (hh mod 10)] = Some hh"
    using assms(1) number_2 [of "hh div 10" "hh mod 10"] by simp
  have m: "number 0 [digit_char (mm div 10), digit_char (mm mod 10)] = Some mm"
    using assms(2) number_2 [of "mm div 10" "mm mod 10"] by simp
  have s: "number 0 [digit_char (ss div 10), digit_char (ss mod 10)] = Some ss"
    using assms(3) number_2 [of "ss div 10" "ss mod 10"] by simp
  show ?thesis
    unfolding parse_clock_def iso_clock_def
    by (simp add: h m s del: number.simps)
qed

lemma length_iso_date: "length (iso_date y m d) = 10"
  by (simp add: iso_date_def)

lemma length_iso_clock: "length (iso_clock hh mm ss) = 8"
  by (simp add: iso_clock_def)

lemma parse_iso_date:
  assumes "y < 10000" and "m < 100" and "d < 100"
  shows "parse_iso (iso_date y m d) =
           Some \<lparr>year = y, month = m, day = d, hour = 0, minute = 0, second = 0\<rparr>"
  using parse_date_iso [OF assms] by (simp add: parse_iso_def length_iso_date)

lemma parse_iso_date_clock:
  assumes "y < 10000" and "m < 100" and "d < 100" and "hh < 100" and "mm < 100" and "ss < 100"
    and "sep = CHR '' '' \<or> sep = CHR ''T''"
  shows "parse_iso (iso_date y m d @ sep # iso_clock hh mm ss) =
           Some \<lparr>year = y, month = m, day = d, hour = hh, minute = mm, second = ss\<rparr>"
  using parse_date_iso [OF assms(1,2,3)] parse_clock_iso [OF assms(4,5,6)] assms(7)
  by (auto simp: parse_iso_def length_iso_date length_iso_clock nth_append)

lemma requested_flattened: "requested (snd (flattened c res)) = requested (snd res)"
  by (simp add: flattened_def split: sum.splits)

lemma to_datetime_valid: "to_datetime dateutil x = Some t \<Longrightarrow> valid_timestamp t"
  by (cases x)
     (auto simp: checked_def fallback_def split: option.splits if_splits)

text \<open>
  Claim C5, as the code has it. For a date whose year has four digits (1000 to 9999),
  the path segment is the calendar date in the form \<^verbatim>\<open>YYYY-MM-DD\<close>, the same whether the
  date is given as a \<^verbatim>\<open>date\<close> object, as a \<^verbatim>\<open>datetime\<close> object with a time of day, as
  the string \<^verbatim>\<open>YYYY-MM-DD\<close>, or as that string followed by a time of day; and whatever
  date-like values the observations call is given, once \<^verbatim>\<open>pd.to_datetime\<close> has read
  them as timestamps with such years, the two path segments of the request are the
  calendar dates of those timestamps in that form.
\<close>

theorem observations_dates_are_iso:
  assumes "valid_date y m d" and "1000 \<le> y" and "hh < 24" and "mm < 60" and "ss < 60"
    and "to_datetime dateutil fromtime = Some ta" and "to_datetime dateutil totime = Some tb"
    and "1000 \<le> year ta" and "1000 \<le> year tb"
  shows "map_option strftime_Ymd (to_datetime dateutil (Date y m d)) = Some (iso_date y m d) \<and>
         map_option strftime_Ymd (to_datetime dateutil (Datetime y m d hh mm ss))
           = Some (iso_date y m d) \<and>
         map_option strftime_Ymd (to_datetime dateutil (DateString (iso_date y m d)))
           = Some (iso_date y m d) \<and>
         map_option strftime_Ymd
             (to_datetime dateutil (DateString (iso_date y m d @ '' '' @ iso_clock hh mm ss)))
           = Some (iso_date y m d) \<and>
         map_option strftime_Ymd
             (to_datetime dateutil (DateString (iso_date y m d @ ''T'' @ iso_clock hh mm ss)))
           = Some (iso_date y m d) \<and>
         requested (snd (get_observations dateutil self fromtime totime station components
                           showinvalid net)) =
           requested net @
             [base_url self @ ''obs/historical/'' @ iso_date (year ta) (month ta) (day ta) @ ''/'' @
              iso_date (year tb) (month tb) (day tb) @ ''/'' @ station @ ''?'' @
              stringify (observations_parameters (join_components components) showinvalid)]"
proof -
  let ?date = "\<lparr>year = y, month = m, day = d, hour = 0, minute = 0, second = 0\<rparr>"
  let ?full = "\<lparr>year = y, month = m, day = d, hour = hh, minute = mm, second = ss\<rparr>"
  have d31: "d \<le> 31"
    using assms(1) days_in_month_le [of y m] by (simp add: valid_date_def)
  have bounds: "y < 10000" "m < 100" "d < 100" "hh < 100" "mm < 100" "ss < 100"
    using assms(1,3,4,5) d31 by (simp_all add: valid_date_def)
  have vd: "valid_timestamp ?date"
    using assms(1) by (simp add: valid_timestamp_def)
  have vf: "valid_timestamp ?full"
    using assms(1,3,4,5) by (simp add: valid_timestamp_def)
  have sd: "strftime_Ymd ?date = iso_date y m d"
    using strftime_iso [OF vd] assms(2) by simp
  have sf: "strftime_Ymd ?full = iso_date y m d"
    using strftime_iso [OF vf] assms(2) by simp
  have c1: "map_option strftime_Ymd (to_datetime dateutil (Date y m d)) = Some (iso_date y m d)"
    using vd sd by (simp add: checked_def)
  have c2: "map_option strftime_Ymd (to_datetime dateutil (Datetime y m d hh mm ss))
              = Some (iso_date y m d)"
    using vf sf by (simp add: checked_def)
  have c3: "map_option strftime_Ymd (to_datetime dateutil (DateString (iso_date y m d)))
              = Some (iso_date y m d)"
    using vd sd parse_iso_date [OF bounds(1,2,3)] by simp
  have c4: "map_option strftime_Ymd
              (to_datetime dateutil (DateString (iso_date y m d @ sep # iso_clock hh mm ss)))
              = Some (iso_date y m d)" if "sep = CHR '' '' \<or> sep = CHR ''T''" for sep
    using vf sf parse_iso_date_clock [OF bounds that] by simp
  have va: "valid_timestamp ta" and vb: "valid_timestamp tb"
    using assms(6,7) by (auto dest: to_datetime_valid)
  have c5: "requested (snd (get_observations dateutil self fromtime totime station components
                              showinvalid net)) =
              requested net @
                [base_url self @ ''obs/historical/'' @ iso_date (year ta) (month ta) (day ta) @
                 ''/'' @ iso_date (year tb) (month tb) (day tb) @ ''/'' @ station @ ''?'' @
                 stringify (observations_parameters (join_components components) showinvalid)]"
    using assms(6,7) strftime_iso [OF va assms(8)] strftime_iso [OF vb assms(9)]
    by (simp add: get_observations_def requested_flattened requested_get_url)
  show ?thesis
    using c1 c2 c3 c4 [of "CHR '' ''"] c4 [of "CHR ''T''"] c5 by simp
qed

theorem observations_dates_are_iso_witness:
  "valid_date 2021 5 3 \<and>
   to_datetime (\<lambda>s. None) (DateString ''2021-05-03 13:45:00'')
     = Some \<lparr>year = 2021, month = 5, day = 3, hour = 13, minute = 45, second = 0\<rparr> \<and>
   to_datetime (\<lambda>s. None) (Date 2021 5 4)
     = Some \<lparr>year = 2021, month = 5, day = 4, hour = 0, minute = 0, second = 0\<rparr> \<and>
   map_option strftime_Ymd (to_datetime (\<lambda>s. None) (Datetime 2021 5 3 13 45 0))
     = Some ''2021-05-03'' \<and>
   map_option strftime_Ymd (to_datetime (\<lambda>s. None) (DateString ''2021-05-03T13:45:00''))
     = Some ''2021-05-03'' \<and>
   requested (snd (get_observations (\<lambda>s. None) NILUClient
       (DateString ''2021-05-03 13:45:00'') (Date 2021 5 4) default_station None None
       \<lparr>pending = [], requested = []\<rparr>))
     = [''https://api.nilu.no/obs/historical/2021-05-03/2021-05-04/all?'']"
proof -
  let ?ta = "\<lparr>year = 2021, month = 5, day = 3, hour = 13, minute = 45, second = 0\<rparr>"
  let ?tb = "\<lparr>year = 2021, month = 5, day = 4, hour = 0, minute = 0, second = 0\<rparr>"
  have h1: "valid_date 2021 5 3" by code_simp
  have h2: "(1000::nat) \<le> 2021" by simp
  have h3: "(13::nat) < 24" by simp
  have h4: "(45::nat) < 60" by simp
  have h5: "(0::nat) < 60" by simp
  have h6: "to_datetime (\<lambda>s. None) (DateString ''2021-05-03 13:45:00'') = Some ?ta" by code_simp
  have h7: "to_datetime (\<lambda>s. None) (Date 2021 5 4) = Some ?tb" by code_simp
  have h8: "1000 \<le> year ?ta" by simp
  have h9: "1000 \<le> year ?tb" by simp
  note r = observations_dates_are_iso
    [where dateutil = "\<lambda>s. None" and y = 2021 and m = 5 and d = 3 and hh = 13 and mm = 45
       and ss = 0 and fromtime = "DateString ''2021-05-03 13:45:00''" and totime = "Date 2021 5 4"
       and ta = ?ta and tb = ?tb and self = NILUClient and station = default_station
       and components = None and showinvalid = None
       and net = "\<lparr>pending = [], requested = []\<rparr>", OF h1 h2 h3 h4 h5 h6 h7 h8 h9]
  have e1: "iso_date 2021 5 3 = ''2021-05-03''" by (simp add: iso_date_def digit_char_def)
  have e2: "iso_date 2021 5 4 = ''2021-05-04''" by (simp add: iso_date_def digit_char_def)
  have e3: "iso_clock 13 45 0 = ''13:45:00''" by (simp add: iso_clock_def digit_char_def)
  have e4: "stringify (observations_parameters (join_components None) None) = ''''"
    by (simp add: stringify_def observations_parameters_def join_components_def)
  show ?thesis
    using h1 h6 h7 r by (simp add: e1 e2 e3 e4 NILUClient_def default_station_def)
qed

text \<open>
  The claim as the specification states it fails for a date before the year 1000: the
  year is printed without padding, so the path segment is not of the form
  \<^verbatim>\<open>YYYY-MM-DD\<close>.
\<close>

theorem observations_dates_counterexample:
  "map_option strftime_Ymd (to_datetime (\<lambda>s. None) (Date 999 1 1)) = Some ''999-01-01'' \<and>
   requested (snd (get_observations (\<lambda>s. None) NILUClient (Date 999 1 1) (Date 999 1 2)
                     ''all'' None None \<lparr>pending = [], requested = []\<rparr>))
     = [''https://api.nilu.no/obs/historical/999-01-01/999-01-02/all?'']"
  by code_simp

section \<open>Properties of the flattening\<close>

text \<open>
  Claim C1, as the code has it. When the named column is not in the table, flattening
  returns no table: \<^verbatim>\<open>explode\<close> raises \<^verbatim>\<open>KeyError\<close>, which is caught, and then
  \<^verbatim>\<open>drop\<close> raises \<^verbatim>\<open>KeyError\<close> again, outside the \<^verbatim>\<open>try\<close> (with column labels that
  are not unique, \<^verbatim>\<open>explode\<close> raises \<^verbatim>\<open>ValueError\<close> first).
\<close>

theorem flatten_absent_column_raises:
  "Name column \<notin> set (columns df) \<Longrightarrow>
     flatten_column df column = Inl (if distinct (columns df) then KeyError else ValueError)"
  by (simp add: flatten_column_def explode_def drop_column_def)

theorem flatten_absent_column_raises_witness:
  "Name ''values'' \<notin> set (columns \<lparr>columns = [Name ''station''],
                                       rows = [[PStr ''Danmarks plass'']]\<rparr>) \<and>
   flatten_column \<lparr>columns = [Name ''station''], rows = [[PStr ''Danmarks plass'']]\<rparr> ''values''
     = Inl KeyError"
proof -
  have h: "Name ''values'' \<notin> set (columns \<lparr>columns = [Name ''station''],
                                              rows = [[PStr ''Danmarks plass'']]\<rparr>)"
    by simp
  show ?thesis using h flatten_absent_column_raises [OF h] by simp
qed

text \<open>
  The claim as the specification states it fails: the empty table, which has no
  columns at all, is not returned unchanged.
\<close>

theorem flatten_empty_table_counterexample:
  "flatten_column \<lparr>columns = [], rows = []\<rparr> ''values'' = Inl KeyError"
  by (simp add: flatten_column_def explode_def drop_column_def)

text \<open>
  Claim C8. Flattening changes no table that exists when it is called, its argument
  included, whether it returns or raises; the table it returns is a new object; and
  what it returns or raises depends on the argument's value alone.
\<close>

theorem flatten_leaves_input_unmodified:
  "df < length st \<Longrightarrow>
     (case flatten_column_store st df column of
        (st', r) \<Rightarrow>
          take (length st) st' = st \<and>
          (case r of
             Inl e \<Rightarrow> flatten_column (st ! df) column = Inl e
           | Inr out \<Rightarrow> length st \<le> out \<and> out < length st' \<and>
                        flatten_column (st ! df) column = Inr (st' ! out)))"
  unfolding flatten_column_store_def flatten_column_def alloc_def Let_def
  by (auto simp: nth_append split: sum.splits prod.splits if_splits)

theorem flatten_leaves_input_unmodified_witness:
  "(0::nat) < length [\<lparr>columns = [Name ''component'', Name ''aqis''],
                       rows = [[PStr ''NO2'', PList [PDict [(''value'', PInt 1)],
                                                     PDict [(''value'', PInt 2)]]]]\<rparr>] \<and>
   (case flatten_column_store
           [\<lparr>columns = [Name ''component'', Name ''aqis''],
             rows = [[PStr ''NO2'', PList [PDict [(''value'', PInt 1)],
                                           PDict [(''value'', PInt 2)]]]]\<rparr>] 0 ''aqis'' of
      (st', r) \<Rightarrow>
        st' ! 0 = \<lparr>columns = [Name ''component'', Name ''aqis''],
                   rows = [[PStr ''NO2'', PList [PDict [(''value'', PInt 1)],
                                                 PDict [(''value'', PInt 2)]]]]\<rparr> \<and>
        r = Inr 4 \<and>
        st' ! 4 = \<lparr>columns = [Name ''component'', Name ''value''],
                   rows = [[PStr ''NO2'', PInt 1], [PStr ''NO2'', PInt 2]]\<rparr>)"
proof -
  let ?df = "\<lparr>columns = [Name ''component'', Name ''aqis''],
              rows = [[PStr ''NO2'', PList [PDict [(''value'', PInt 1)],
                                            PDict [(''value'', PInt 2)]]]]\<rparr>"
  have h: "(0::nat) < length [?df]" by simp
  show ?thesis
    using h flatten_leaves_input_unmodified [OF h, of "''aqis''"]
    by (simp add: flatten_column_store_def alloc_def explode_def cell_def set_cell_def
        drop_column_def drop_cells_def getitem_def concat_columns_def named_records_def)
qed

section \<open>Properties of the requests\<close>

lemma explode_error: "explode df c = Inl e \<Longrightarrow> e = KeyError \<or> e = ValueError"
  by (auto simp: explode_def split: if_splits)

lemma from_records_error: "from_records ds = Inl e \<Longrightarrow> e = TypeError"
  by (cases ds rule: from_records.cases)
     (auto simp: by_position_def split: option.splits if_splits)

lemma flatten_column_error:
  "flatten_column df c = Inl e \<Longrightarrow> e \<in> {KeyError, ValueError, TypeError}"
  unfolding flatten_column_def
  by (auto simp: drop_column_def getitem_def split: sum.splits if_splits
        dest!: explode_error from_records_error)

lemma flatten_column_not_http: "\<not> is_http_error (flatten_column df c)"
proof (cases "flatten_column df c")
  case (Inl e)
  then show ?thesis using flatten_column_error [OF Inl] by auto
next
  case (Inr d)
  then show ?thesis by simp
qed

lemma from_records_not_http: "\<not> is_http_error (from_records ds)"
proof (cases "from_records ds")
  case (Inl e)
  then show ?thesis using from_records_error [OF Inl] by auto
next
  case (Inr d)
  then show ?thesis by simp
qed

lemma get_url_outcome:
  "pending net = Some resp # rest \<Longrightarrow> http_outcome resp net (get_url self url ps net)"
  using from_records_not_http
  by (auto simp: http_outcome_def get_url_def requests_get_def raise_for_status_def
        split: option.splits)

lemma flattened_outcome:
  "http_outcome resp net res \<Longrightarrow> http_outcome resp net (flattened c res)"
  using flatten_column_not_http
  by (auto simp: http_outcome_def flattened_def split: sum.splits if_splits)

text \<open>
  Claim C7, as the code has it. Every public operation whose request is answered fails
  with an \<^verbatim>\<open>HTTPError\<close> exactly when the status of the answer is a client or server
  error code (400 to 599); the error carries that status, and the operation has made
  one request and used one answer, so nothing is retried. (The observations call makes
  its request once its two dates are read.)
\<close>

theorem http_error_exactly_for_error_status:
  assumes "pending net = Some resp # rest"
    and "to_datetime dateutil fromtime = Some ta" and "to_datetime dateutil totime = Some tb"
  shows "http_outcome resp net (get_areas self net) \<and>
         http_outcome resp net (get_stations self area utd net) \<and>
         http_outcome resp net (get_components self net) \<and>
         http_outcome resp net (get_air_quality_index self component culture net) \<and>
         http_outcome resp net (get_timeseries self station component timestep net) \<and>
         http_outcome resp net
           (get_observations dateutil self fromtime totime station' components showinvalid net)"
  using assms
  by (simp add: get_areas_def get_stations_def get_components_def get_air_quality_index_def
      get_timeseries_def get_observations_def get_url_outcome flattened_outcome)

theorem http_error_exactly_for_error_status_witness:
  "pending \<lparr>pending = [Some \<lparr>status_code = 404, json = None\<rparr>], requested = []\<rparr>
     = Some \<lparr>status_code = 404, json = None\<rparr> # [] \<and>
   fst (get_areas NILUClient
          \<lparr>pending = [Some \<lparr>status_code = 404, json = None\<rparr>], requested = []\<rparr>)
     = Inl (HTTPError 404) \<and>
   fst (get_observations (\<lambda>s. None) NILUClient (DateString ''2021-05-03'')
          (DateString ''2021-05-03'') ''all'' None None
          \<lparr>pending = [Some \<lparr>status_code = 404, json = None\<rparr>], requested = []\<rparr>)
     = Inl (HTTPError 404)"
proof -
  let ?resp = "\<lparr>status_code = 404, json = None\<rparr>"
  let ?net = "\<lparr>pending = [Some ?resp], requested = []\<rparr>"
  let ?t = "\<lparr>year = 2021, month = 5, day = 3, hour = 0, minute = 0, second = 0\<rparr>"
  have h1: "pending ?net = Some ?resp # []" by simp
  have h2: "to_datetime (\<lambda>s. None) (DateString ''2021-05-03'') = Some ?t" by code_simp
  note r = http_error_exactly_for_error_status
    [where net = ?net and resp = ?resp and rest = "[]" and dateutil = "\<lambda>s. None"
       and fromtime = "DateString ''2021-05-03''" and totime = "DateString ''2021-05-03''"
       and ta = ?t and tb = ?t and self = NILUClient and station' = "''all''"
       and components = None and showinvalid = None, OF h1 h2 h2]
  show ?thesis
    using h1 r by (simp add: http_outcome_def)
qed

text \<open>
  The claim as the specification states it fails twice. A status that is neither a
  success nor an error code (304) raises no \<^verbatim>\<open>HTTPError\<close>: the operation goes on to
  decode the body. And a successful answer can still fail in the client: the empty
  array has no column to flatten.
\<close>

theorem http_error_counterexample:
  "fst (get_areas NILUClient
          \<lparr>pending = [Some \<lparr>status_code = 304, json = None\<rparr>], requested = []\<rparr>)
     = Inl JSONDecodeError \<and>
   fst (get_air_quality_index NILUClient None None
          \<lparr>pending = [Some \<lparr>status_code = 200, json = Some []\<rparr>], requested = []\<rparr>)
     = Inl KeyError"
  by (simp add: get_areas_def get_air_quality_index_def get_url_def requests_get_def
      raise_for_status_def flattened_def flatten_column_def explode_def drop_column_def)

section \<open>The flattened table\<close>




























end
